theory Spec2Isabelle
  imports Main "HOL-Library.Word"
begin

section \<open>Data model of \<open>internal/utils/k8s.go\<close>\<close>

text \<open>
  Go strings and byte slices are sequences of bytes; both are modelled over \<open>char\<close>
  (an 8-bit value in HOL). A \<open>[]byte\<close> can be \<open>nil\<close>, which differs from the empty
  slice: \<open>None\<close> is the nil slice, \<open>Some bs\<close> a slice holding \<open>bs\<close>.
\<close>

type_synonym bytes = "string option"

text \<open>The conversion \<open>string(b)\<close> of a byte slice: the nil slice gives the empty string.\<close>

fun string_of_bytes :: "bytes \<Rightarrow> string" where
  "string_of_bytes None = []"
| "string_of_bytes (Some bs) = bs"

text \<open>\<open>context.Context\<close>: the root context and the contexts derived from one.\<close>

datatype Context = Background | WithCancel Context | WithTimeout Context nat

text \<open>\<open>types.NamespacedName\<close>\<close>

record NamespacedName =
  Namespace :: string
  Name :: string

text \<open>
  \<open>corev1.Service\<close>, restricted to the fields the resolver reads:
  \<open>Spec.Ports[i].Name\<close>, \<open>Spec.Ports[i].Port\<close> (an \<open>int32\<close>), \<open>Spec.ClusterIP\<close>
  and \<open>Status.LoadBalancer.Ingress[i].IP\<close>. An ingress also has a \<open>Hostname\<close>, which
  the resolver never reads; it is kept to tell an ingress that reports a host name and
  no IP.
\<close>

record ServicePort =
  PortName :: string
  Port :: "32 word"

record ServiceSpec =
  Ports :: "ServicePort list"
  ClusterIP :: string

record LoadBalancerIngress =
  IP :: string
  Hostname :: string

record LoadBalancerStatus =
  Ingress :: "LoadBalancerIngress list"

record ServiceStatus =
  LoadBalancer :: LoadBalancerStatus

record Service =
  Spec :: ServiceSpec
  Status :: ServiceStatus

text \<open>\<open>corev1.Secret\<close>: the \<open>Data\<close> map from entry names to byte slices.\<close>

record Secret =
  Data :: "string \<rightharpoonup> bytes"

text \<open>
  \<open>elasticsearch.Config\<close>, restricted to the four fields the resolver assigns; every
  other field of the Go struct keeps its zero value on all paths. The nil slice of
  addresses is the empty list.
\<close>

record Config =
  Addresses :: "string list"
  Username :: string
  Password :: string
  CACert :: bytes

text \<open>The zero values \<open>elasticsearch.Config{}\<close>, \<open>corev1.Service{}\<close>, \<open>corev1.Secret{}\<close>.\<close>

definition Config_zero :: Config where
  "Config_zero = \<lparr>Addresses = [], Username = [], Password = [], CACert = None\<rparr>"

definition Service_zero :: Service where
  "Service_zero =
     \<lparr>Spec = \<lparr>Ports = [], ClusterIP = []\<rparr>,
      Status = \<lparr>LoadBalancer = \<lparr>Ingress = []\<rparr>\<rparr>\<rparr>"

definition Secret_zero :: Secret where
  "Secret_zero = \<lparr>Data = Map.empty\<rparr>"

subsection \<open>Errors\<close>

text \<open>
  The kind of object a \<open>Get\<close> asks for is fixed by the Go type of the object pointer
  it is given.
\<close>

datatype kind = ServiceKind | SecretKind

text \<open>
  An error is either one returned by the directory client, passed on as it is, or one
  built by \<open>fmt.Errorf\<close>, kept as the format string and its arguments.
\<close>

datatype fmt_arg = ArgStr string | ArgInt int

datatype error =
    NotFound kind NamespacedName
  | ClientError string
  | Errorf string "fmt_arg list"

text \<open>The names the specification gives to the three errors the resolver builds.\<close>

definition InvalidShape :: "nat \<Rightarrow> error" where
  "InvalidShape n = Errorf ''not exactly 1 port: %d'' [ArgInt (int n)]"

definition MissingAddress :: error where
  "MissingAddress = Errorf ''service IP not found'' []"

definition MissingEntry :: "string \<Rightarrow> error" where
  "MissingEntry secretName = Errorf ''no 'elastic' entry in Secret %q'' [ArgStr secretName]"

subsection \<open>Formatting\<close>

text \<open>
  The verb \<open>%d\<close> of \<open>fmt.Sprintf\<close> on a signed integer: decimal digits, a leading
  minus sign for a negative value. The verb \<open>%s\<close> copies a string as it is.
\<close>

fun fmt_nat :: "nat \<Rightarrow> string" where
  "fmt_nat n =
     (if n < 10 then [''0123456789'' ! n]
      else fmt_nat (n div 10) @ [''0123456789'' ! (n mod 10)])"

declare fmt_nat.simps [simp del]

definition fmt_d :: "int \<Rightarrow> string" where
  "fmt_d i = (if i < 0 then CHR ''-'' # fmt_nat (nat (- i)) else fmt_nat (nat i))"

section \<open>The directory client\<close>

text \<open>
  \<open>client.Client\<close> of controller-runtime is an interface of an external library. Its
  method \<open>Get(ctx, key, obj)\<close> dispatches on the type of \<open>obj\<close>, may change the object
  behind the pointer and the client's own state \<open>'s\<close>, and returns an error or nil.
  The resolver is parametric in it.
\<close>

record 's Client =
  GetService :: "Context \<Rightarrow> NamespacedName \<Rightarrow> Service \<Rightarrow> 's \<Rightarrow> (error option \<times> Service) \<times> 's"
  GetSecret :: "Context \<Rightarrow> NamespacedName \<Rightarrow> Secret \<Rightarrow> 's \<Rightarrow> (error option \<times> Secret) \<times> 's"

section \<open>The resolver\<close>

text \<open>
  \<open>ResolveEsConfigFromk8s\<close> (k8s.go, lines 22 to 70), statement by statement. The
  function returns a pair \<open>(elasticsearch.Config, error)\<close>; \<open>None\<close> is the nil
  error. The second \<open>Get\<close> of a secret is given the variable \<open>secret\<close> that the
  first one filled.
\<close>

definition ResolveEsConfigFromk8s ::
  "'s Client \<Rightarrow> string \<Rightarrow> string \<Rightarrow> 's \<Rightarrow> (Config \<times> error option) \<times> 's" where
  "ResolveEsConfigFromk8s k8sClient namespace name s0 =
    (let esCfg = Config_zero;
         svcName = name @ ''-es-http'';
         ((err, service), s1) =
            GetService k8sClient Background \<lparr>Namespace = namespace, Name = svcName\<rparr> Service_zero s0
     in
     if err \<noteq> None then ((Config_zero, err), s1)
     else if length (Ports (Spec service)) \<noteq> 1 then
       ((Config_zero,
         Some (Errorf ''not exactly 1 port: %d'' [ArgInt (int (length (Ports (Spec service))))])), s1)
     else
       let protocol = PortName (Ports (Spec service) ! 0);
           port = Port (Ports (Spec service) ! 0);
           ip = ClusterIP (Spec service);
           ingress = Ingress (LoadBalancer (Status service));
           ip = (if length ingress = 1 then IP (ingress ! 0) else ip)
       in
       if ip = [] then ((Config_zero, Some (Errorf ''service IP not found'' [])), s1)
       else
         let secretName = name @ ''-es-elastic-user'';
             ((err, secret), s2) =
                GetSecret k8sClient Background \<lparr>Namespace = namespace, Name = secretName\<rparr> Secret_zero s1
         in
         if err \<noteq> None then ((Config_zero, err), s2)
         else
           let esCfg = esCfg\<lparr>Username := ''elastic''\<rparr> in
           case Data secret (Username esCfg) of
             None \<Rightarrow>
               ((Config_zero,
                 Some (Errorf ''no 'elastic' entry in Secret %q'' [ArgStr secretName])), s2)
           | Some password \<Rightarrow>
               let esCfg = esCfg\<lparr>Password := string_of_bytes password\<rparr>;
                   secretName = name @ ''-es-http-certs-public'';
                   ((err, secret), s3) =
                      GetSecret k8sClient Background \<lparr>Namespace = namespace, Name = secretName\<rparr> secret s2
               in
               if err \<noteq> None then ((Config_zero, err), s3)
               else
                 let esCfg = (case Data secret ''ca.crt'' of
                                Some caCert \<Rightarrow> esCfg\<lparr>CACert := caCert\<rparr>
                              | None \<Rightarrow> esCfg);
                     esCfg = esCfg\<lparr>Addresses := [protocol @ ''://'' @ ip @ '':'' @ fmt_d (sint port)]\<rparr>
                 in ((esCfg, None), s3))"

section \<open>A directory of named resources\<close>

text \<open>
  Modelled from the spec: the Directory Client is an external collaborator (the
  controller-runtime client, or its fake in the tests) whose code is not part of the
  repository. The specification gives it one capability: fetch a named, namespaced
  resource of a known kind, returning either the resource or a not-found error. The
  directory holds the services and the secrets by namespaced name; a fetch does not
  change them. So that the fetches a caller issues can be observed, the directory also
  keeps the list of the requests it received, oldest first.
\<close>

datatype Request = GetRequest (req_ctx: Context) (req_key: NamespacedName) (req_kind: kind)

record Directory =
  services :: "NamespacedName \<rightharpoonup> Service"
  secrets :: "NamespacedName \<rightharpoonup> Secret"
  requests :: "Request list"

text \<open>
  Modelled from the spec: \<open>Get\<close> of a service. The request is recorded; the service
  under the key is returned if there is one, and a not-found error otherwise, the
  caller's object left as it was.
\<close>

definition dir_GetService ::
  "Context \<Rightarrow> NamespacedName \<Rightarrow> Service \<Rightarrow> Directory \<Rightarrow> (error option \<times> Service) \<times> Directory" where
  "dir_GetService ctx key obj d =
     (let d' = d\<lparr>requests := requests d @ [GetRequest ctx key ServiceKind]\<rparr> in
      case services d key of
        None \<Rightarrow> ((Some (NotFound ServiceKind key), obj), d')
      | Some svc \<Rightarrow> ((None, svc), d'))"

text \<open>Modelled from the spec: \<open>Get\<close> of a secret, in the same way.\<close>

definition dir_GetSecret ::
  "Context \<Rightarrow> NamespacedName \<Rightarrow> Secret \<Rightarrow> Directory \<Rightarrow> (error option \<times> Secret) \<times> Directory" where
  "dir_GetSecret ctx key obj d =
     (let d' = d\<lparr>requests := requests d @ [GetRequest ctx key SecretKind]\<rparr> in
      case secrets d key of
        None \<Rightarrow> ((Some (NotFound SecretKind key), obj), d')
      | Some sec \<Rightarrow> ((None, sec), d'))"

text \<open>Modelled from the spec: the client over a directory, with its two typed fetches.\<close>

definition DirectoryClient :: "Directory Client" where
  "DirectoryClient = \<lparr>GetService = dir_GetService, GetSecret = dir_GetSecret\<rparr>"

text \<open>
  The naming convention of the specification (section 6) for the three resources of a
  cluster, in the caller's namespace.
\<close>

definition endpoint_key :: "string \<Rightarrow> string \<Rightarrow> NamespacedName" where
  "endpoint_key namespace clusterName = \<lparr>Namespace = namespace, Name = clusterName @ ''-es-http''\<rparr>"

definition credential_key :: "string \<Rightarrow> string \<Rightarrow> NamespacedName" where
  "credential_key namespace clusterName =
     \<lparr>Namespace = namespace, Name = clusterName @ ''-es-elastic-user''\<rparr>"

definition trust_key :: "string \<Rightarrow> string \<Rightarrow> NamespacedName" where
  "trust_key namespace clusterName =
     \<lparr>Namespace = namespace, Name = clusterName @ ''-es-http-certs-public''\<rparr>"

text \<open>
  Step 3 of the specification's contract, in its words: if the resource reports exactly
  one externally assigned ingress address, use it; otherwise use the resource's
  internal address.
\<close>

definition select_address :: "Service \<Rightarrow> string" where
  "select_address svc =
     (case Ingress (LoadBalancer (Status svc)) of
        [g] \<Rightarrow> IP g
      | _ \<Rightarrow> ClusterIP (Spec svc))"

text \<open>Step 8 of the contract: the address string \<open>protocol://address:port\<close>.\<close>

definition compose_address :: "ServicePort \<Rightarrow> string \<Rightarrow> string" where
  "compose_address p host = PortName p @ ''://'' @ host @ '':'' @ fmt_d (sint (Port p))"

text \<open>Running the resolver against a directory: its result, and the directory it leaves.\<close>

definition Resolve :: "string \<Rightarrow> string \<Rightarrow> Directory \<Rightarrow> (Config \<times> error option) \<times> Directory" where
  "Resolve namespace clusterName d = ResolveEsConfigFromk8s DirectoryClient namespace clusterName d"

text \<open>The directory after it has received the requests \<open>rs\<close>, in this order.\<close>

definition issued :: "Request list \<Rightarrow> Directory \<Rightarrow> Directory" where
  "issued rs d = d\<lparr>requests := requests d @ rs\<rparr>"

text \<open>The three fetches of a resolution, as the directory records them.\<close>

definition endpoint_fetch :: "string \<Rightarrow> string \<Rightarrow> Request" where
  "endpoint_fetch namespace clusterName =
     GetRequest Background (endpoint_key namespace clusterName) ServiceKind"

definition credential_fetch :: "string \<Rightarrow> string \<Rightarrow> Request" where
  "credential_fetch namespace clusterName =
     GetRequest Background (credential_key namespace clusterName) SecretKind"

definition trust_fetch :: "string \<Rightarrow> string \<Rightarrow> Request" where
  "trust_fetch namespace clusterName =
     GetRequest Background (trust_key namespace clusterName) SecretKind"

subsection \<open>The objects of \<open>Test_ResolveEsConfigFromk8s\<close>\<close>

text \<open>
  The fake client of the test is built from a list of objects; \<open>directory_of\<close> builds
  the directory holding them, with no request received yet. The objects are those of
  the test, in the namespace \<open>ns-a\<close> for the cluster \<open>cluster-a\<close>; the values of the two
  secret entries, which the test file does not show, are those of the scenarios of the
  specification (section 8): \<open>secretpw\<close> under \<open>elastic\<close>, and \<open>x\<close> under \<open>badEntry\<close>.
\<close>

definition directory_of ::
  "(NamespacedName \<times> Service) list \<Rightarrow> (NamespacedName \<times> Secret) list \<Rightarrow> Directory" where
  "directory_of svcs secs = \<lparr>services = map_of svcs, secrets = map_of secs, requests = []\<rparr>"

definition test_svc :: Service where
  "test_svc =
     \<lparr>Spec = \<lparr>Ports = [\<lparr>PortName = ''http'', Port = 9200\<rparr>], ClusterIP = ''127.0.0.1''\<rparr>,
      Status = \<lparr>LoadBalancer = \<lparr>Ingress = []\<rparr>\<rparr>\<rparr>"

definition test_userSecret :: Secret where
  "test_userSecret = \<lparr>Data = [''elastic'' \<mapsto> Some ''secretpw'']\<rparr>"

definition test_invalidUserSecret :: Secret where
  "test_invalidUserSecret = \<lparr>Data = [''badEntry'' \<mapsto> Some ''x'']\<rparr>"

definition test_certsSecret :: Secret where
  "test_certsSecret = \<lparr>Data = Map.empty\<rparr>"

definition svc_key :: NamespacedName where
  "svc_key = \<lparr>Namespace = ''ns-a'', Name = ''cluster-a-es-http''\<rparr>"

definition userSecret_key :: NamespacedName where
  "userSecret_key = \<lparr>Namespace = ''ns-a'', Name = ''cluster-a-es-elastic-user''\<rparr>"

definition certsSecret_key :: NamespacedName where
  "certsSecret_key = \<lparr>Namespace = ''ns-a'', Name = ''cluster-a-es-http-certs-public''\<rparr>"

text \<open>The four cases of the test table.\<close>

definition happy_path :: Directory where
  "happy_path =
     directory_of [(svc_key, test_svc)]
       [(userSecret_key, test_userSecret), (certsSecret_key, test_certsSecret)]"

definition missing_service :: Directory where
  "missing_service = directory_of [] [(userSecret_key, test_userSecret)]"

definition missing_user_secret :: Directory where
  "missing_user_secret = directory_of [(svc_key, test_svc)] []"

definition invalid_user_secret :: Directory where
  "invalid_user_secret = directory_of [(svc_key, test_svc)] [(userSecret_key, test_invalidUserSecret)]"

subsection \<open>Further endpoint resources\<close>

text \<open>The cluster of the test with another service under the endpoint's name.\<close>

definition cluster_with :: "Service \<Rightarrow> Directory" where
  "cluster_with svc =
     directory_of [(svc_key, svc)]
       [(userSecret_key, test_userSecret), (certsSecret_key, test_certsSecret)]"

definition no_port_svc :: Service where
  "no_port_svc =
     \<lparr>Spec = \<lparr>Ports = [], ClusterIP = ''127.0.0.1''\<rparr>,
      Status = \<lparr>LoadBalancer = \<lparr>Ingress = []\<rparr>\<rparr>\<rparr>"

definition two_port_svc :: Service where
  "two_port_svc =
     \<lparr>Spec = \<lparr>Ports = [\<lparr>PortName = ''http'', Port = 9200\<rparr>,
                        \<lparr>PortName = ''transport'', Port = 9300\<rparr>],
              ClusterIP = ''10.0.0.1''\<rparr>,
      Status = \<lparr>LoadBalancer = \<lparr>Ingress = [\<lparr>IP = [], Hostname = ''es.example.com''\<rparr>]\<rparr>\<rparr>\<rparr>"

definition hostname_ingress_svc :: Service where
  "hostname_ingress_svc =
     \<lparr>Spec = \<lparr>Ports = [\<lparr>PortName = ''https'', Port = 9200\<rparr>], ClusterIP = ''10.0.0.1''\<rparr>,
      Status = \<lparr>LoadBalancer = \<lparr>Ingress = [\<lparr>IP = [], Hostname = ''es.example.com''\<rparr>]\<rparr>\<rparr>\<rparr>"

definition load_balancer_svc :: Service where
  "load_balancer_svc =
     \<lparr>Spec = \<lparr>Ports = [\<lparr>PortName = ''https'', Port = 9200\<rparr>], ClusterIP = ''10.0.0.1''\<rparr>,
      Status = \<lparr>LoadBalancer = \<lparr>Ingress = [\<lparr>IP = ''203.0.113.7'', Hostname = []\<rparr>]\<rparr>\<rparr>\<rparr>"

definition two_ingress_svc :: Service where
  "two_ingress_svc =
     \<lparr>Spec = \<lparr>Ports = [\<lparr>PortName = ''https'', Port = 9200\<rparr>], ClusterIP = ''10.0.0.1''\<rparr>,
      Status = \<lparr>LoadBalancer = \<lparr>Ingress = [\<lparr>IP = ''203.0.113.7'', Hostname = []\<rparr>,
                                             \<lparr>IP = ''203.0.113.8'', Hostname = []\<rparr>]\<rparr>\<rparr>\<rparr>"

definition no_address_svc :: Service where
  "no_address_svc =
     \<lparr>Spec = \<lparr>Ports = [\<lparr>PortName = ''https'', Port = 9200\<rparr>], ClusterIP = []\<rparr>,
      Status = \<lparr>LoadBalancer = \<lparr>Ingress = []\<rparr>\<rparr>\<rparr>"

definition unnamed_port_svc :: Service where
  "unnamed_port_svc =
     \<lparr>Spec = \<lparr>Ports = [\<lparr>PortName = [], Port = 9200\<rparr>], ClusterIP = ''127.0.0.1''\<rparr>,
      Status = \<lparr>LoadBalancer = \<lparr>Ingress = []\<rparr>\<rparr>\<rparr>"

definition transport_port_svc :: Service where
  "transport_port_svc =
     \<lparr>Spec = \<lparr>Ports = [\<lparr>PortName = ''transport'', Port = 9300\<rparr>], ClusterIP = ''127.0.0.1''\<rparr>,
      Status = \<lparr>LoadBalancer = \<lparr>Ingress = []\<rparr>\<rparr>\<rparr>"

text \<open>The cluster of the test with a service of one's choice and no trust secret.\<close>

definition cluster_without_certs :: "Service \<Rightarrow> Directory" where
  "cluster_without_certs svc = directory_of [(svc_key, svc)] [(userSecret_key, test_userSecret)]"

section \<open>The outcomes of a resolution against a directory\<close>

text \<open>
  One lemma for each way the resolver returns: the result, and the requests the
  directory has received when it returns. The address the code selects (lines 36 to 40)
  is the one of step 3 of the contract.
\<close>

lemmas Resolve_unfold =
  Resolve_def ResolveEsConfigFromk8s_def DirectoryClient_def dir_GetService_def dir_GetSecret_def
  Let_def endpoint_key_def credential_key_def trust_key_def issued_def
  endpoint_fetch_def credential_fetch_def trust_fetch_def

lemma select_address_code:
  "(if length (Ingress (LoadBalancer (Status svc))) = 1
    then IP (Ingress (LoadBalancer (Status svc)) ! 0) else ClusterIP (Spec svc)) = select_address svc"
  by (auto simp: select_address_def split: list.splits)

lemma Resolve_endpoint_absent:
  "services d (endpoint_key ns name) = None \<Longrightarrow>
   Resolve ns name d =
     ((Config_zero, Some (NotFound ServiceKind (endpoint_key ns name))),
      issued [endpoint_fetch ns name] d)"
  by (simp add: Resolve_unfold)

lemma Resolve_port_count:
  "services d (endpoint_key ns name) = Some svc \<Longrightarrow> length (Ports (Spec svc)) \<noteq> 1 \<Longrightarrow>
   Resolve ns name d =
     ((Config_zero, Some (InvalidShape (length (Ports (Spec svc))))),
      issued [endpoint_fetch ns name] d)"
  by (simp add: Resolve_unfold InvalidShape_def)

lemma Resolve_no_address:
  "services d (endpoint_key ns name) = Some svc \<Longrightarrow> length (Ports (Spec svc)) = 1 \<Longrightarrow>
   select_address svc = [] \<Longrightarrow>
   Resolve ns name d = ((Config_zero, Some MissingAddress), issued [endpoint_fetch ns name] d)"
  using select_address_code [of svc]
  by (simp add: Resolve_unfold MissingAddress_def)

lemma Resolve_credential_absent:
  "services d (endpoint_key ns name) = Some svc \<Longrightarrow> length (Ports (Spec svc)) = 1 \<Longrightarrow>
   select_address svc \<noteq> [] \<Longrightarrow> secrets d (credential_key ns name) = None \<Longrightarrow>
   Resolve ns name d =
     ((Config_zero, Some (NotFound SecretKind (credential_key ns name))),
      issued [endpoint_fetch ns name, credential_fetch ns name] d)"
  using select_address_code [of svc]
  by (simp add: Resolve_unfold)

lemma Resolve_no_entry:
  "services d (endpoint_key ns name) = Some svc \<Longrightarrow> length (Ports (Spec svc)) = 1 \<Longrightarrow>
   select_address svc \<noteq> [] \<Longrightarrow> secrets d (credential_key ns name) = Some cred \<Longrightarrow>
   Data cred ''elastic'' = None \<Longrightarrow>
   Resolve ns name d =
     ((Config_zero, Some (MissingEntry (name @ ''-es-elastic-user''))),
      issued [endpoint_fetch ns name, credential_fetch ns name] d)"
  using select_address_code [of svc]
  by (simp add: Resolve_unfold MissingEntry_def Config_zero_def)

lemma Resolve_trust_absent:
  "services d (endpoint_key ns name) = Some svc \<Longrightarrow> length (Ports (Spec svc)) = 1 \<Longrightarrow>
   select_address svc \<noteq> [] \<Longrightarrow> secrets d (credential_key ns name) = Some cred \<Longrightarrow>
   Data cred ''elastic'' = Some pw \<Longrightarrow> secrets d (trust_key ns name) = None \<Longrightarrow>
   Resolve ns name d =
     ((Config_zero, Some (NotFound SecretKind (trust_key ns name))),
      issued [endpoint_fetch ns name, credential_fetch ns name, trust_fetch ns name] d)"
  using select_address_code [of svc]
  by (simp add: Resolve_unfold Config_zero_def)

lemma Resolve_success:
  "services d (endpoint_key ns name) = Some svc \<Longrightarrow> Ports (Spec svc) = [p] \<Longrightarrow>
   select_address svc \<noteq> [] \<Longrightarrow> secrets d (credential_key ns name) = Some cred \<Longrightarrow>
   Data cred ''elastic'' = Some pw \<Longrightarrow> secrets d (trust_key ns name) = Some trust \<Longrightarrow>
   Resolve ns name d =
     ((\<lparr>Addresses = [compose_address p (select_address svc)],
        Username = ''elastic'',
        Password = string_of_bytes pw,
        CACert = (case Data trust ''ca.crt'' of Some caCert \<Rightarrow> caCert | None \<Rightarrow> None)\<rparr>, None),
      issued [endpoint_fetch ns name, credential_fetch ns name, trust_fetch ns name] d)"
  using select_address_code [of svc]
  by (simp add: Resolve_unfold Config_zero_def compose_address_def split: option.splits)

text \<open>A fetch reads the directory and changes nothing but the list of requests.\<close>

lemma Resolve_reads_only:
  "services (snd (Resolve ns name d)) = services d \<and> secrets (snd (Resolve ns name d)) = secrets d"
  unfolding Resolve_unfold
  by (simp split: option.splits)

lemma Resolve_result_cong:
  "services d = services d' \<Longrightarrow> secrets d = secrets d' \<Longrightarrow>
   fst (Resolve ns name d) = fst (Resolve ns name d')"
  unfolding Resolve_unfold
  by (simp split: option.splits)

text \<open>The seven situations of a directory that decide how a resolution ends.\<close>

lemma Resolve_cases [case_names endpoint_absent port_count no_address credential_absent no_entry trust_absent success]:
  obtains
    "services d (endpoint_key ns name) = None"
  | svc where "services d (endpoint_key ns name) = Some svc" "length (Ports (Spec svc)) \<noteq> 1"
  | svc p where "services d (endpoint_key ns name) = Some svc" "Ports (Spec svc) = [p]"
      "select_address svc = []"
  | svc p where "services d (endpoint_key ns name) = Some svc" "Ports (Spec svc) = [p]"
      "select_address svc \<noteq> []" "secrets d (credential_key ns name) = None"
  | svc p cred where "services d (endpoint_key ns name) = Some svc" "Ports (Spec svc) = [p]"
      "select_address svc \<noteq> []" "secrets d (credential_key ns name) = Some cred"
      "Data cred ''elastic'' = None"
  | svc p cred pw where "services d (endpoint_key ns name) = Some svc" "Ports (Spec svc) = [p]"
      "select_address svc \<noteq> []" "secrets d (credential_key ns name) = Some cred"
      "Data cred ''elastic'' = Some pw" "secrets d (trust_key ns name) = None"
  | svc p cred pw trust where "services d (endpoint_key ns name) = Some svc" "Ports (Spec svc) = [p]"
      "select_address svc \<noteq> []" "secrets d (credential_key ns name) = Some cred"
      "Data cred ''elastic'' = Some pw" "secrets d (trust_key ns name) = Some trust"
proof (cases "services d (endpoint_key ns name)")
  case None
  then show ?thesis using that(1) by blast
next
  case (Some svc)
  note svc = this
  show ?thesis
  proof (cases "length (Ports (Spec svc)) = 1")
    case False
    with svc show ?thesis using that(2) by blast
  next
    case True
    then obtain p where p: "Ports (Spec svc) = [p]"
      by (cases "Ports (Spec svc)") auto
    show ?thesis
    proof (cases "select_address svc = []")
      case True
      with svc p show ?thesis using that(3) by blast
    next
      case False
      note addr = this
      show ?thesis
      proof (cases "secrets d (credential_key ns name)")
        case None
        with svc p addr show ?thesis using that(4) by blast
      next
        case (Some cred)
        note cred = this
        show ?thesis
        proof (cases "Data cred ''elastic''")
          case None
          with svc p addr cred show ?thesis using that(5) by blast
        next
          case (Some pw)
          note pw = this
          show ?thesis
          proof (cases "secrets d (trust_key ns name)")
            case None
            with svc p addr cred pw show ?thesis using that(6) by blast
          next
            case (Some trust)
            with svc p addr cred pw show ?thesis using that(7) by blast
          qed
        qed
      qed
    qed
  qed
qed

lemma fmt_d_9200: "fmt_d 9200 = ''9200''"
  by (simp add: fmt_d_def fmt_nat.simps)

lemma fmt_d_9300: "fmt_d 9300 = ''9300''"
  by (simp add: fmt_d_def fmt_nat.simps)

lemmas test_objects =
  happy_path_def missing_service_def missing_user_secret_def invalid_user_secret_def
  directory_of_def svc_key_def userSecret_key_def certsSecret_key_def
  test_svc_def test_userSecret_def test_invalidUserSecret_def test_certsSecret_def
  endpoint_key_def credential_key_def trust_key_def cluster_with_def cluster_without_certs_def

lemma Config_zero_fields [simp]:
  "Addresses Config_zero = []" "Username Config_zero = []"
  "Password Config_zero = []" "CACert Config_zero = None"
  by (simp_all add: Config_zero_def)

text \<open>Every return of the resolver that carries an error carries the zero configuration.\<close>

lemma Resolve_error_zero:
  "fst (ResolveEsConfigFromk8s k8sClient namespace name s) = (cfg, Some e) \<Longrightarrow> cfg = Config_zero"
  unfolding ResolveEsConfigFromk8s_def Let_def
  by (simp split: prod.splits if_splits option.splits)

text \<open>What the directories of the test hold.\<close>

lemma cluster_with_endpoint:
  "services (cluster_with svc) (endpoint_key ''ns-a'' ''cluster-a'') = Some svc"
  by (simp add: test_objects)

lemma cluster_with_credential:
  "secrets (cluster_with svc) (credential_key ''ns-a'' ''cluster-a'') = Some test_userSecret"
  by (simp add: test_objects)

lemma cluster_with_trust:
  "secrets (cluster_with svc) (trust_key ''ns-a'' ''cluster-a'') = Some test_certsSecret"
  by (simp add: test_objects)

lemma cluster_without_certs_endpoint:
  "services (cluster_without_certs svc) (endpoint_key ''ns-a'' ''cluster-a'') = Some svc"
  by (simp add: test_objects)

lemma cluster_without_certs_credential:
  "secrets (cluster_without_certs svc) (credential_key ''ns-a'' ''cluster-a'') = Some test_userSecret"
  by (simp add: test_objects)

lemma cluster_without_certs_trust:
  "secrets (cluster_without_certs svc) (trust_key ''ns-a'' ''cluster-a'') = None"
  by (simp add: test_objects)

lemma missing_user_secret_endpoint:
  "services missing_user_secret (endpoint_key ''ns-a'' ''cluster-a'') = Some test_svc"
  by (simp add: test_objects)

lemma missing_user_secret_credential:
  "secrets missing_user_secret (credential_key ''ns-a'' ''cluster-a'') = None"
  by (simp add: test_objects)

lemma happy_path_cluster: "happy_path = cluster_with test_svc"
  by (simp add: happy_path_def cluster_with_def)

lemma invalid_user_secret_endpoint:
  "services invalid_user_secret (endpoint_key ''ns-a'' ''cluster-a'') = Some test_svc"
  by (simp add: test_objects)

lemma invalid_user_secret_credential:
  "secrets invalid_user_secret (credential_key ''ns-a'' ''cluster-a'') = Some test_invalidUserSecret"
  by (simp add: test_objects)

lemma missing_service_endpoint:
  "services missing_service (endpoint_key ''ns-a'' ''cluster-a'') = None"
  by (simp add: test_objects)

lemma test_userSecret_elastic: "Data test_userSecret ''elastic'' = Some (Some ''secretpw'')"
  by (simp add: test_userSecret_def)

lemma test_invalidUserSecret_elastic: "Data test_invalidUserSecret ''elastic'' = None"
  by (simp add: test_invalidUserSecret_def)

lemma test_certsSecret_ca: "Data test_certsSecret ''ca.crt'' = None"
  by (simp add: test_certsSecret_def)

lemma test_svc_address: "select_address test_svc = ''127.0.0.1''"
  by (simp add: test_svc_def select_address_def)

lemmas test_lookups =
  cluster_with_endpoint cluster_with_credential cluster_with_trust
  invalid_user_secret_endpoint invalid_user_secret_credential missing_service_endpoint
  test_userSecret_elastic test_invalidUserSecret_elastic test_certsSecret_ca test_svc_address

text \<open>The errors of the resolver differ from one another and from the client's.\<close>

lemma error_distinct:
  "MissingAddress \<noteq> MissingEntry s" "MissingAddress \<noteq> NotFound k key"
  "MissingAddress \<noteq> InvalidShape n"
  "MissingEntry s \<noteq> MissingAddress" "NotFound k key \<noteq> MissingAddress"
  "InvalidShape n \<noteq> MissingAddress"
  by (simp_all add: MissingAddress_def MissingEntry_def InvalidShape_def)

lemma select_address_one: "Ingress (LoadBalancer (Status svc)) = [g] \<Longrightarrow> select_address svc = IP g"
  by (simp add: select_address_def)

lemma select_address_other:
  "length (Ingress (LoadBalancer (Status svc))) \<noteq> 1 \<Longrightarrow> select_address svc = ClusterIP (Spec svc)"
  by (auto simp: select_address_def split: list.splits)

text \<open>With one port, how the resolution ends is decided by the selected address.\<close>

lemma Resolve_selected:
  assumes "services d (endpoint_key ns name) = Some svc" and "Ports (Spec svc) = [p]"
  shows "(select_address svc = [] \<longrightarrow> fst (Resolve ns name d) = (Config_zero, Some MissingAddress)) \<and>
         (select_address svc \<noteq> [] \<longrightarrow> snd (fst (Resolve ns name d)) \<noteq> Some MissingAddress) \<and>
         (snd (fst (Resolve ns name d)) = None \<longrightarrow>
            Addresses (fst (fst (Resolve ns name d))) = [compose_address p (select_address svc)])"
proof (cases rule: Resolve_cases [of d ns name])
  case endpoint_absent
  with assms show ?thesis by simp
next
  case (port_count svc')
  with assms show ?thesis by simp
next
  case (no_address svc' p')
  with assms Resolve_no_address [of d ns name svc] show ?thesis by simp
next
  case (credential_absent svc' p')
  with assms Resolve_credential_absent [of d ns name svc] show ?thesis
    by (simp add: error_distinct)
next
  case (no_entry svc' p' cred)
  with assms Resolve_no_entry [of d ns name svc cred] show ?thesis
    by (simp add: error_distinct)
next
  case (trust_absent svc' p' cred pw)
  with assms Resolve_trust_absent [of d ns name svc cred pw] show ?thesis
    by (simp add: error_distinct)
next
  case (success svc' p' cred pw trust)
  with assms Resolve_success [of d ns name svc p cred pw trust] show ?thesis
    by simp
qed

text \<open>The cluster of the test resolves whenever its endpoint is well-formed.\<close>

lemma cluster_with_success:
  assumes "Ports (Spec svc) = [p]" and "select_address svc \<noteq> []"
  shows "Resolve ''ns-a'' ''cluster-a'' (cluster_with svc) =
           ((\<lparr>Addresses = [compose_address p (select_address svc)], Username = ''elastic'',
              Password = ''secretpw'', CACert = None\<rparr>, None),
            issued [endpoint_fetch ''ns-a'' ''cluster-a'', credential_fetch ''ns-a'' ''cluster-a'',
                    trust_fetch ''ns-a'' ''cluster-a''] (cluster_with svc))"
  using Resolve_success [OF cluster_with_endpoint assms cluster_with_credential
          test_userSecret_elastic cluster_with_trust]
  by (simp add: test_certsSecret_ca)

text \<open>The requests of a resolution: one, two or three, in a fixed order.\<close>

lemma Resolve_issued:
  "snd (Resolve ns name d) = issued [endpoint_fetch ns name] d \<or>
   snd (Resolve ns name d) = issued [endpoint_fetch ns name, credential_fetch ns name] d \<or>
   snd (Resolve ns name d) =
     issued [endpoint_fetch ns name, credential_fetch ns name, trust_fetch ns name] d"
proof (cases rule: Resolve_cases [of d ns name])
  case endpoint_absent
  with Resolve_endpoint_absent [of d ns name] show ?thesis by simp
next
  case (port_count svc)
  with Resolve_port_count [of d ns name svc] show ?thesis by simp
next
  case (no_address svc p)
  with Resolve_no_address [of d ns name svc] show ?thesis by simp
next
  case (credential_absent svc p)
  with Resolve_credential_absent [of d ns name svc] show ?thesis by simp
next
  case (no_entry svc p cred)
  with Resolve_no_entry [of d ns name svc cred] show ?thesis by simp
next
  case (trust_absent svc p cred pw)
  with Resolve_trust_absent [of d ns name svc cred pw] show ?thesis by simp
next
  case (success svc p cred pw trust)
  with Resolve_success [of d ns name svc p cred pw trust] show ?thesis by simp
qed

section \<open>The claims\<close>

text \<open>
  C1. In a directory that holds, in the caller's namespace, a service
  \<open><clusterName>-es-http\<close> with the one port \<open>{name: "http", port: 9200}\<close>, the
  cluster IP \<open>127.0.0.1\<close> and no load-balancer ingress, a secret
  \<open><clusterName>-es-elastic-user\<close> with the entry \<open>elastic\<close> holding \<open>secretpw\<close>, and a
  secret \<open><clusterName>-es-http-certs-public\<close> with no entry \<open>ca.crt\<close>, the resolution
  succeeds and returns the addresses \<open>["http://127.0.0.1:9200"]\<close>, the username
  \<open>elastic\<close>, the password \<open>secretpw\<close> and a nil CA certificate.
\<close>

theorem Resolve_scenario:
  assumes "services d \<lparr>Namespace = ns, Name = name @ ''-es-http''\<rparr> = Some svc"
    and "Ports (Spec svc) = [\<lparr>PortName = ''http'', Port = 9200\<rparr>]"
    and "ClusterIP (Spec svc) = ''127.0.0.1''"
    and "Ingress (LoadBalancer (Status svc)) = []"
    and "secrets d \<lparr>Namespace = ns, Name = name @ ''-es-elastic-user''\<rparr> = Some cred"
    and "Data cred ''elastic'' = Some (Some ''secretpw'')"
    and "secrets d \<lparr>Namespace = ns, Name = name @ ''-es-http-certs-public''\<rparr> = Some trust"
    and "Data trust ''ca.crt'' = None"
  shows "fst (Resolve ns name d) =
           (\<lparr>Addresses = [''http://127.0.0.1:9200''], Username = ''elastic'',
             Password = ''secretpw'', CACert = None\<rparr>, None)"
proof -
  have addr: "select_address svc = ''127.0.0.1''"
    using assms(3,4) by (simp add: select_address_def)
  have "Resolve ns name d =
     ((\<lparr>Addresses = [compose_address \<lparr>PortName = ''http'', Port = 9200\<rparr> (select_address svc)],
        Username = ''elastic'',
        Password = string_of_bytes (Some ''secretpw''),
        CACert = (case Data trust ''ca.crt'' of Some caCert \<Rightarrow> caCert | None \<Rightarrow> None)\<rparr>, None),
      issued [endpoint_fetch ns name, credential_fetch ns name, trust_fetch ns name] d)"
    using assms addr
    by (intro Resolve_success [where cred = cred])
       (simp_all add: endpoint_key_def credential_key_def trust_key_def)
  then show ?thesis
    using assms(8) addr by (simp add: compose_address_def fmt_d_9200)
qed

theorem Resolve_scenario_witness:
  "fst (Resolve ''ns-a'' ''cluster-a'' happy_path) =
     (\<lparr>Addresses = [''http://127.0.0.1:9200''], Username = ''elastic'',
       Password = ''secretpw'', CACert = None\<rparr>, None)"
  by (rule Resolve_scenario [where svc = test_svc and cred = test_userSecret and trust = test_certsSecret])
     (simp_all add: test_objects)

text \<open>
  C2. Whatever the client, its state, the namespace and the cluster name: when the
  resolver returns a non-nil error, the configuration returned with it is the zero
  value, that is, no address, an empty username, an empty password and a nil CA
  certificate.
\<close>

theorem Resolve_error_zero_config:
  "snd (fst (ResolveEsConfigFromk8s k8sClient namespace name s)) \<noteq> None \<Longrightarrow>
   fst (fst (ResolveEsConfigFromk8s k8sClient namespace name s)) = Config_zero \<and>
   Addresses (fst (fst (ResolveEsConfigFromk8s k8sClient namespace name s))) = [] \<and>
   Username (fst (fst (ResolveEsConfigFromk8s k8sClient namespace name s))) = [] \<and>
   Password (fst (fst (ResolveEsConfigFromk8s k8sClient namespace name s))) = [] \<and>
   CACert (fst (fst (ResolveEsConfigFromk8s k8sClient namespace name s))) = None"
proof -
  assume failed: "snd (fst (ResolveEsConfigFromk8s k8sClient namespace name s)) \<noteq> None"
  obtain cfg err where r: "fst (ResolveEsConfigFromk8s k8sClient namespace name s) = (cfg, err)"
    by (cases "fst (ResolveEsConfigFromk8s k8sClient namespace name s)")
  with failed obtain e where "err = Some e" by auto
  with r have "cfg = Config_zero" by (simp add: Resolve_error_zero)
  with r show ?thesis by (simp add: Config_zero_def)
qed

theorem Resolve_error_zero_config_witness:
  "snd (fst (ResolveEsConfigFromk8s DirectoryClient ''ns-a'' ''cluster-a'' invalid_user_secret)) \<noteq> None \<and>
   fst (fst (ResolveEsConfigFromk8s DirectoryClient ''ns-a'' ''cluster-a'' invalid_user_secret)) = Config_zero \<and>
   Password (fst (fst (ResolveEsConfigFromk8s DirectoryClient ''ns-a'' ''cluster-a'' invalid_user_secret))) = []"
proof -
  have "Resolve ''ns-a'' ''cluster-a'' invalid_user_secret =
          ((Config_zero, Some (MissingEntry ''cluster-a-es-elastic-user'')),
           issued [endpoint_fetch ''ns-a'' ''cluster-a'', credential_fetch ''ns-a'' ''cluster-a'']
             invalid_user_secret)"
    using Resolve_no_entry [of invalid_user_secret "''ns-a''" "''cluster-a''" test_svc test_invalidUserSecret]
    by (simp add: test_lookups) (simp add: test_svc_def)
  then have failed:
    "snd (fst (ResolveEsConfigFromk8s DirectoryClient ''ns-a'' ''cluster-a'' invalid_user_secret)) \<noteq> None"
    by (simp add: Resolve_def)
  from Resolve_error_zero_config [OF failed] failed show ?thesis by blast
qed

text \<open>
  C3. In a directory where the endpoint resource \<open><clusterName>-es-http\<close> exists and
  declares a number of ports other than 1, the resolution fails with the error
  \<open>InvalidShape\<close> (``not exactly 1 port''), returns the zero configuration, and has
  fetched nothing but the endpoint.
\<close>

theorem Resolve_port_count_InvalidShape:
  assumes "services d (endpoint_key ns name) = Some svc"
    and "length (Ports (Spec svc)) \<noteq> 1"
  shows "Resolve ns name d =
           ((Config_zero, Some (InvalidShape (length (Ports (Spec svc))))),
            issued [endpoint_fetch ns name] d)"
  using assms by (rule Resolve_port_count)

theorem Resolve_port_count_InvalidShape_witness:
  "Resolve ''ns-a'' ''cluster-a'' (cluster_with no_port_svc) =
     ((Config_zero, Some (InvalidShape 0)),
      issued [endpoint_fetch ''ns-a'' ''cluster-a''] (cluster_with no_port_svc)) \<and>
   Resolve ''ns-a'' ''cluster-a'' (cluster_with two_port_svc) =
     ((Config_zero, Some (InvalidShape 2)),
      issued [endpoint_fetch ''ns-a'' ''cluster-a''] (cluster_with two_port_svc))"
proof -
  have none: "length (Ports (Spec no_port_svc)) = 0"
    by (simp add: no_port_svc_def)
  have two: "length (Ports (Spec two_port_svc)) = 2"
    by (simp add: two_port_svc_def)
  from Resolve_port_count_InvalidShape [OF cluster_with_endpoint, of no_port_svc]
    Resolve_port_count_InvalidShape [OF cluster_with_endpoint, of two_port_svc]
  show ?thesis by (simp add: none two)
qed

text \<open>
  C4. For an endpoint resource with exactly one port: when it reports exactly one
  load-balancer ingress, the \<open>IP\<close> of that ingress is the host of the composed
  address; when it reports none, or two or more, the cluster IP is; and the resolution
  fails with the error \<open>MissingAddress\<close> exactly when the selected address is the
  empty string.
\<close>

theorem Resolve_address_selection:
  assumes "services d (endpoint_key ns name) = Some svc" and "Ports (Spec svc) = [p]"
  shows
    "(\<forall>g. Ingress (LoadBalancer (Status svc)) = [g] \<longrightarrow>
        (IP g = [] \<longrightarrow> fst (Resolve ns name d) = (Config_zero, Some MissingAddress)) \<and>
        (IP g \<noteq> [] \<longrightarrow> snd (fst (Resolve ns name d)) \<noteq> Some MissingAddress) \<and>
        (snd (fst (Resolve ns name d)) = None \<longrightarrow>
           Addresses (fst (fst (Resolve ns name d))) =
             [PortName p @ ''://'' @ IP g @ '':'' @ fmt_d (sint (Port p))])) \<and>
     (length (Ingress (LoadBalancer (Status svc))) \<noteq> 1 \<longrightarrow>
        (ClusterIP (Spec svc) = [] \<longrightarrow> fst (Resolve ns name d) = (Config_zero, Some MissingAddress)) \<and>
        (ClusterIP (Spec svc) \<noteq> [] \<longrightarrow> snd (fst (Resolve ns name d)) \<noteq> Some MissingAddress) \<and>
        (snd (fst (Resolve ns name d)) = None \<longrightarrow>
           Addresses (fst (fst (Resolve ns name d))) =
             [PortName p @ ''://'' @ ClusterIP (Spec svc) @ '':'' @ fmt_d (sint (Port p))]))"
  using Resolve_selected [OF assms]
  by (auto simp: select_address_one select_address_other compose_address_def)

theorem Resolve_address_selection_witness:
  "Addresses (fst (fst (Resolve ''ns-a'' ''cluster-a'' (cluster_with load_balancer_svc)))) =
     [''https://203.0.113.7:9200''] \<and>
   Addresses (fst (fst (Resolve ''ns-a'' ''cluster-a'' (cluster_with two_ingress_svc)))) =
     [''https://10.0.0.1:9200''] \<and>
   fst (Resolve ''ns-a'' ''cluster-a'' (cluster_with no_address_svc)) =
     (Config_zero, Some MissingAddress) \<and>
   fst (Resolve ''ns-a'' ''cluster-a'' (cluster_with hostname_ingress_svc)) =
     (Config_zero, Some MissingAddress)"
proof -
  let ?p = "\<lparr>PortName = ''https'', Port = 9200\<rparr>"
  let ?g = "\<lparr>IP = [], Hostname = ''es.example.com''\<rparr>"
  have host_port: "Ports (Spec hostname_ingress_svc) = [?p]"
    and host_ingress: "Ingress (LoadBalancer (Status hostname_ingress_svc)) = [?g]"
    by (simp_all add: hostname_ingress_svc_def)
  have lb_port: "Ports (Spec load_balancer_svc) = [?p]"
    and lb_ingress: "Ingress (LoadBalancer (Status load_balancer_svc)) =
                       [\<lparr>IP = ''203.0.113.7'', Hostname = []\<rparr>]"
    by (simp_all add: load_balancer_svc_def)
  have lb_ok: "snd (fst (Resolve ''ns-a'' ''cluster-a'' (cluster_with load_balancer_svc))) = None"
    using cluster_with_success [OF lb_port] by (simp add: select_address_one [OF lb_ingress])
  have two_port: "Ports (Spec two_ingress_svc) = [?p]"
    and two_ingress: "length (Ingress (LoadBalancer (Status two_ingress_svc))) \<noteq> 1"
    and two_ip: "ClusterIP (Spec two_ingress_svc) = ''10.0.0.1''"
    by (simp_all add: two_ingress_svc_def)
  have two_ok: "snd (fst (Resolve ''ns-a'' ''cluster-a'' (cluster_with two_ingress_svc))) = None"
    using cluster_with_success [OF two_port]
    by (simp add: select_address_other [OF two_ingress] two_ip)
  have no_port: "Ports (Spec no_address_svc) = [?p]"
    and no_ingress: "length (Ingress (LoadBalancer (Status no_address_svc))) \<noteq> 1"
    and no_ip: "ClusterIP (Spec no_address_svc) = []"
    by (simp_all add: no_address_svc_def)
  from Resolve_address_selection [OF cluster_with_endpoint lb_port] lb_ingress lb_ok
  have "Addresses (fst (fst (Resolve ''ns-a'' ''cluster-a'' (cluster_with load_balancer_svc)))) =
          [''https://203.0.113.7:9200'']"
    by (simp add: fmt_d_9200)
  moreover from Resolve_address_selection [OF cluster_with_endpoint two_port] two_ingress two_ok two_ip
  have "Addresses (fst (fst (Resolve ''ns-a'' ''cluster-a'' (cluster_with two_ingress_svc)))) =
          [''https://10.0.0.1:9200'']"
    by (simp add: fmt_d_9200)
  moreover from Resolve_address_selection [OF cluster_with_endpoint no_port] no_ingress no_ip
  have "fst (Resolve ''ns-a'' ''cluster-a'' (cluster_with no_address_svc)) =
          (Config_zero, Some MissingAddress)"
    by simp
  moreover from Resolve_address_selection [OF cluster_with_endpoint host_port] host_ingress
  have "fst (Resolve ''ns-a'' ''cluster-a'' (cluster_with hostname_ingress_svc)) =
          (Config_zero, Some MissingAddress)"
    by simp
  ultimately show ?thesis by simp
qed

text \<open>
  C5. In a directory where the endpoint and the credential secret exist and the
  endpoint is well-formed (one port, a non-empty selected address), but the secret has
  no entry under the key \<open>elastic\<close>, the resolution fails with the error
  \<open>MissingEntry\<close> and the configuration returned carries no password.
\<close>

theorem Resolve_no_elastic_entry:
  assumes "services d (endpoint_key ns name) = Some svc"
    and "length (Ports (Spec svc)) = 1"
    and "select_address svc \<noteq> []"
    and "secrets d (credential_key ns name) = Some cred"
    and "Data cred ''elastic'' = None"
  shows "fst (Resolve ns name d) =
           (Config_zero, Some (MissingEntry (name @ ''-es-elastic-user''))) \<and>
         Password (fst (fst (Resolve ns name d))) = []"
  using Resolve_no_entry [OF assms] by (simp add: Config_zero_def)

theorem Resolve_no_elastic_entry_witness:
  "fst (Resolve ''ns-a'' ''cluster-a'' invalid_user_secret) =
     (Config_zero, Some (MissingEntry ''cluster-a-es-elastic-user'')) \<and>
   Password (fst (fst (Resolve ''ns-a'' ''cluster-a'' invalid_user_secret))) = []"
proof -
  have port: "length (Ports (Spec test_svc)) = 1"
    by (simp add: test_svc_def)
  have addr: "select_address test_svc \<noteq> []"
    by (simp add: test_svc_address)
  from Resolve_no_elastic_entry
         [OF invalid_user_secret_endpoint port addr invalid_user_secret_credential
             test_invalidUserSecret_elastic]
  show ?thesis by simp
qed

text \<open>
  C6. When the endpoint resource is absent, the resolution returns the directory's
  \<open>NotFound\<close> error for it and the directory has received one request, the one for
  the endpoint. In every directory the requests are the endpoint's, then the credential
  secret's, then the trust secret's, and they stop at the step that fails: a wrong port
  count or an empty selected address also ends after the endpoint's request; an absent
  credential secret, or one with no entry \<open>elastic\<close>, ends after the two requests for
  the endpoint and the credential secret; and the trust secret is requested, third, only
  when the endpoint is well-formed and the credential secret has its entry.
\<close>

theorem Resolve_fetch_order:
  "(services d (endpoint_key ns name) = None \<longrightarrow>
      Resolve ns name d =
        ((Config_zero, Some (NotFound ServiceKind (endpoint_key ns name))),
         issued [endpoint_fetch ns name] d)) \<and>
   (\<forall>svc. services d (endpoint_key ns name) = Some svc \<and> length (Ports (Spec svc)) \<noteq> 1 \<longrightarrow>
      Resolve ns name d =
        ((Config_zero, Some (InvalidShape (length (Ports (Spec svc))))),
         issued [endpoint_fetch ns name] d)) \<and>
   (\<forall>svc. services d (endpoint_key ns name) = Some svc \<and> length (Ports (Spec svc)) = 1 \<and>
      select_address svc = [] \<longrightarrow>
      Resolve ns name d =
        ((Config_zero, Some MissingAddress), issued [endpoint_fetch ns name] d)) \<and>
   (\<forall>svc. services d (endpoint_key ns name) = Some svc \<and> length (Ports (Spec svc)) = 1 \<and>
      select_address svc \<noteq> [] \<and> secrets d (credential_key ns name) = None \<longrightarrow>
      Resolve ns name d =
        ((Config_zero, Some (NotFound SecretKind (credential_key ns name))),
         issued [endpoint_fetch ns name, credential_fetch ns name] d)) \<and>
   (\<forall>svc cred. services d (endpoint_key ns name) = Some svc \<and> length (Ports (Spec svc)) = 1 \<and>
      select_address svc \<noteq> [] \<and> secrets d (credential_key ns name) = Some cred \<and>
      Data cred ''elastic'' = None \<longrightarrow>
      Resolve ns name d =
        ((Config_zero, Some (MissingEntry (name @ ''-es-elastic-user''))),
         issued [endpoint_fetch ns name, credential_fetch ns name] d)) \<and>
   (\<forall>svc cred pw. services d (endpoint_key ns name) = Some svc \<and> length (Ports (Spec svc)) = 1 \<and>
      select_address svc \<noteq> [] \<and> secrets d (credential_key ns name) = Some cred \<and>
      Data cred ''elastic'' = Some pw \<and> secrets d (trust_key ns name) = None \<longrightarrow>
      Resolve ns name d =
        ((Config_zero, Some (NotFound SecretKind (trust_key ns name))),
         issued [endpoint_fetch ns name, credential_fetch ns name, trust_fetch ns name] d)) \<and>
   (\<forall>svc cred pw trust. services d (endpoint_key ns name) = Some svc \<and>
      length (Ports (Spec svc)) = 1 \<and> select_address svc \<noteq> [] \<and>
      secrets d (credential_key ns name) = Some cred \<and> Data cred ''elastic'' = Some pw \<and>
      secrets d (trust_key ns name) = Some trust \<longrightarrow>
      snd (fst (Resolve ns name d)) = None \<and>
      snd (Resolve ns name d) =
        issued [endpoint_fetch ns name, credential_fetch ns name, trust_fetch ns name] d)"
proof (intro conjI allI impI)
  assume "services d (endpoint_key ns name) = None"
  then show "Resolve ns name d =
        ((Config_zero, Some (NotFound ServiceKind (endpoint_key ns name))),
         issued [endpoint_fetch ns name] d)"
    by (rule Resolve_endpoint_absent)
next
  fix svc
  assume "services d (endpoint_key ns name) = Some svc \<and> length (Ports (Spec svc)) \<noteq> 1"
  then show "Resolve ns name d =
        ((Config_zero, Some (InvalidShape (length (Ports (Spec svc))))),
         issued [endpoint_fetch ns name] d)"
    by (simp add: Resolve_port_count)
next
  fix svc
  assume "services d (endpoint_key ns name) = Some svc \<and> length (Ports (Spec svc)) = 1 \<and>
      select_address svc = []"
  then show "Resolve ns name d =
        ((Config_zero, Some MissingAddress), issued [endpoint_fetch ns name] d)"
    by (simp add: Resolve_no_address)
next
  fix svc
  assume "services d (endpoint_key ns name) = Some svc \<and> length (Ports (Spec svc)) = 1 \<and>
      select_address svc \<noteq> [] \<and> secrets d (credential_key ns name) = None"
  then show "Resolve ns name d =
        ((Config_zero, Some (NotFound SecretKind (credential_key ns name))),
         issued [endpoint_fetch ns name, credential_fetch ns name] d)"
    by (simp add: Resolve_credential_absent)
next
  fix svc cred
  assume "services d (endpoint_key ns name) = Some svc \<and> length (Ports (Spec svc)) = 1 \<and>
      select_address svc \<noteq> [] \<and> secrets d (credential_key ns name) = Some cred \<and>
      Data cred ''elastic'' = None"
  then show "Resolve ns name d =
        ((Config_zero, Some (MissingEntry (name @ ''-es-elastic-user''))),
         issued [endpoint_fetch ns name, credential_fetch ns name] d)"
    by (simp add: Resolve_no_entry)
next
  fix svc cred pw
  assume "services d (endpoint_key ns name) = Some svc \<and> length (Ports (Spec svc)) = 1 \<and>
      select_address svc \<noteq> [] \<and> secrets d (credential_key ns name) = Some cred \<and>
      Data cred ''elastic'' = Some pw \<and> secrets d (trust_key ns name) = None"
  then show "Resolve ns name d =
        ((Config_zero, Some (NotFound SecretKind (trust_key ns name))),
         issued [endpoint_fetch ns name, credential_fetch ns name, trust_fetch ns name] d)"
    by (simp add: Resolve_trust_absent)
next
  fix svc cred pw trust
  assume a: "services d (endpoint_key ns name) = Some svc \<and>
      length (Ports (Spec svc)) = 1 \<and> select_address svc \<noteq> [] \<and>
      secrets d (credential_key ns name) = Some cred \<and> Data cred ''elastic'' = Some pw \<and>
      secrets d (trust_key ns name) = Some trust"
  then obtain p where p: "Ports (Spec svc) = [p]"
    by (cases "Ports (Spec svc)") auto
  from a p have r: "Resolve ns name d =
     ((\<lparr>Addresses = [compose_address p (select_address svc)],
        Username = ''elastic'',
        Password = string_of_bytes pw,
        CACert = (case Data trust ''ca.crt'' of Some caCert \<Rightarrow> caCert | None \<Rightarrow> None)\<rparr>, None),
      issued [endpoint_fetch ns name, credential_fetch ns name, trust_fetch ns name] d)"
    by (simp add: Resolve_success)
  from r show "snd (fst (Resolve ns name d)) = None" by simp
  from r show "snd (Resolve ns name d) =
        issued [endpoint_fetch ns name, credential_fetch ns name, trust_fetch ns name] d"
    by simp
qed

theorem Resolve_fetch_order_witness:
  "Resolve ''ns-a'' ''cluster-a'' missing_service =
     ((Config_zero, Some (NotFound ServiceKind svc_key)),
      issued [endpoint_fetch ''ns-a'' ''cluster-a''] missing_service) \<and>
   requests (snd (Resolve ''ns-a'' ''cluster-a'' missing_service)) =
     [GetRequest Background svc_key ServiceKind] \<and>
   requests (snd (Resolve ''ns-a'' ''cluster-a'' (cluster_with no_port_svc))) =
     [GetRequest Background svc_key ServiceKind] \<and>
   requests (snd (Resolve ''ns-a'' ''cluster-a'' (cluster_with no_address_svc))) =
     [GetRequest Background svc_key ServiceKind] \<and>
   Resolve ''ns-a'' ''cluster-a'' missing_user_secret =
     ((Config_zero, Some (NotFound SecretKind userSecret_key)),
      issued [endpoint_fetch ''ns-a'' ''cluster-a'', credential_fetch ''ns-a'' ''cluster-a'']
        missing_user_secret) \<and>
   requests (snd (Resolve ''ns-a'' ''cluster-a'' missing_user_secret)) =
     [GetRequest Background svc_key ServiceKind, GetRequest Background userSecret_key SecretKind] \<and>
   requests (snd (Resolve ''ns-a'' ''cluster-a'' invalid_user_secret)) =
     [GetRequest Background svc_key ServiceKind, GetRequest Background userSecret_key SecretKind] \<and>
   Resolve ''ns-a'' ''cluster-a'' (cluster_without_certs test_svc) =
     ((Config_zero, Some (NotFound SecretKind certsSecret_key)),
      issued [endpoint_fetch ''ns-a'' ''cluster-a'', credential_fetch ''ns-a'' ''cluster-a'',
              trust_fetch ''ns-a'' ''cluster-a''] (cluster_without_certs test_svc)) \<and>
   requests (snd (Resolve ''ns-a'' ''cluster-a'' (cluster_without_certs test_svc))) =
     [GetRequest Background svc_key ServiceKind, GetRequest Background userSecret_key SecretKind,
      GetRequest Background certsSecret_key SecretKind] \<and>
   snd (fst (Resolve ''ns-a'' ''cluster-a'' happy_path)) = None \<and>
   requests (snd (Resolve ''ns-a'' ''cluster-a'' happy_path)) =
     [GetRequest Background svc_key ServiceKind, GetRequest Background userSecret_key SecretKind,
      GetRequest Background certsSecret_key SecretKind]"
proof -
  have keys: "endpoint_key ''ns-a'' ''cluster-a'' = svc_key"
    "credential_key ''ns-a'' ''cluster-a'' = userSecret_key"
    "trust_key ''ns-a'' ''cluster-a'' = certsSecret_key"
    by (simp_all add: endpoint_key_def credential_key_def trust_key_def
          svc_key_def userSecret_key_def certsSecret_key_def)
  have fetches: "endpoint_fetch ''ns-a'' ''cluster-a'' = GetRequest Background svc_key ServiceKind"
    "credential_fetch ''ns-a'' ''cluster-a'' = GetRequest Background userSecret_key SecretKind"
    "trust_fetch ''ns-a'' ''cluster-a'' = GetRequest Background certsSecret_key SecretKind"
    by (simp_all add: endpoint_fetch_def credential_fetch_def trust_fetch_def keys)
  have empty: "requests missing_service = []" "requests missing_user_secret = []"
    "requests invalid_user_secret = []" "requests happy_path = []"
    "requests (cluster_with svc) = []" "requests (cluster_without_certs svc) = []" for svc
    by (simp_all add: missing_service_def missing_user_secret_def invalid_user_secret_def
          happy_path_def cluster_with_def cluster_without_certs_def directory_of_def)
  have one: "length (Ports (Spec test_svc)) = 1" "select_address test_svc \<noteq> []"
    by (simp_all add: test_svc_def select_address_def)
  have none: "length (Ports (Spec no_port_svc)) \<noteq> 1"
    by (simp add: no_port_svc_def)
  have noaddr: "length (Ports (Spec no_address_svc)) = 1" "select_address no_address_svc = []"
    by (simp_all add: no_address_svc_def select_address_def)
  note absent = Resolve_fetch_order [of missing_service "''ns-a''" "''cluster-a''", THEN conjunct1]
  note shape = Resolve_fetch_order [of "cluster_with no_port_svc" "''ns-a''" "''cluster-a''",
      THEN conjunct2, THEN conjunct1]
  note address = Resolve_fetch_order [of "cluster_with no_address_svc" "''ns-a''" "''cluster-a''",
      THEN conjunct2, THEN conjunct2, THEN conjunct1]
  note nocred = Resolve_fetch_order [of missing_user_secret "''ns-a''" "''cluster-a''",
      THEN conjunct2, THEN conjunct2, THEN conjunct2, THEN conjunct1]
  note noentry = Resolve_fetch_order [of invalid_user_secret "''ns-a''" "''cluster-a''",
      THEN conjunct2, THEN conjunct2, THEN conjunct2, THEN conjunct2, THEN conjunct1]
  note notrust = Resolve_fetch_order [of "cluster_without_certs test_svc" "''ns-a''" "''cluster-a''",
      THEN conjunct2, THEN conjunct2, THEN conjunct2, THEN conjunct2, THEN conjunct2, THEN conjunct1]
  note ok = Resolve_fetch_order [of happy_path "''ns-a''" "''cluster-a''",
      THEN conjunct2, THEN conjunct2, THEN conjunct2, THEN conjunct2, THEN conjunct2, THEN conjunct2]
  have r1: "Resolve ''ns-a'' ''cluster-a'' missing_service =
     ((Config_zero, Some (NotFound ServiceKind svc_key)),
      issued [endpoint_fetch ''ns-a'' ''cluster-a''] missing_service)"
    using absent missing_service_endpoint by (simp add: keys)
  have r2: "Resolve ''ns-a'' ''cluster-a'' (cluster_with no_port_svc) =
     ((Config_zero, Some (InvalidShape (length (Ports (Spec no_port_svc))))),
      issued [endpoint_fetch ''ns-a'' ''cluster-a''] (cluster_with no_port_svc))"
    using shape [rule_format, of no_port_svc] none by (simp add: cluster_with_endpoint)
  have r3: "Resolve ''ns-a'' ''cluster-a'' (cluster_with no_address_svc) =
     ((Config_zero, Some MissingAddress),
      issued [endpoint_fetch ''ns-a'' ''cluster-a''] (cluster_with no_address_svc))"
    using address [rule_format, of no_address_svc] noaddr by (simp add: cluster_with_endpoint)
  have r4: "Resolve ''ns-a'' ''cluster-a'' missing_user_secret =
     ((Config_zero, Some (NotFound SecretKind userSecret_key)),
      issued [endpoint_fetch ''ns-a'' ''cluster-a'', credential_fetch ''ns-a'' ''cluster-a'']
        missing_user_secret)"
    using nocred [rule_format, of test_svc] one
      missing_user_secret_endpoint missing_user_secret_credential
    by (simp add: keys)
  have r5: "Resolve ''ns-a'' ''cluster-a'' invalid_user_secret =
     ((Config_zero, Some (MissingEntry (''cluster-a'' @ ''-es-elastic-user''))),
      issued [endpoint_fetch ''ns-a'' ''cluster-a'', credential_fetch ''ns-a'' ''cluster-a'']
        invalid_user_secret)"
    using noentry [rule_format, of test_svc test_invalidUserSecret] one
    by (simp add: invalid_user_secret_endpoint invalid_user_secret_credential
          test_invalidUserSecret_elastic)
  have r6: "Resolve ''ns-a'' ''cluster-a'' (cluster_without_certs test_svc) =
     ((Config_zero, Some (NotFound SecretKind certsSecret_key)),
      issued [endpoint_fetch ''ns-a'' ''cluster-a'', credential_fetch ''ns-a'' ''cluster-a'',
              trust_fetch ''ns-a'' ''cluster-a''] (cluster_without_certs test_svc))"
    using notrust [rule_format, of test_svc test_userSecret "Some ''secretpw''"] one
      cluster_without_certs_endpoint [of test_svc] cluster_without_certs_credential [of test_svc]
      cluster_without_certs_trust [of test_svc] test_userSecret_elastic
    by (simp add: keys)
  have r7: "snd (fst (Resolve ''ns-a'' ''cluster-a'' happy_path)) = None \<and>
      snd (Resolve ''ns-a'' ''cluster-a'' happy_path) =
        issued [endpoint_fetch ''ns-a'' ''cluster-a'', credential_fetch ''ns-a'' ''cluster-a'',
                trust_fetch ''ns-a'' ''cluster-a''] happy_path"
    using ok [rule_format, of test_svc test_userSecret "Some ''secretpw''" test_certsSecret] one
    by (simp add: happy_path_cluster cluster_with_endpoint cluster_with_credential
          cluster_with_trust test_userSecret_elastic)
  from r1 r2 r3 r4 r5 r6 r7 show ?thesis
    by (simp add: issued_def empty fetches)
qed

text \<open>
  C7, as stated, does not hold: the resolver has no context parameter, so a caller that
  holds a context with a timeout cannot pass it on. On the happy path of the test the
  three requests carry \<open>context.Background()\<close>, which is not the caller's context
  \<open>WithTimeout Background 30\<close>.
\<close>

theorem Resolve_ignores_caller_context:
  "map req_ctx (requests (snd (Resolve ''ns-a'' ''cluster-a'' happy_path))) =
     [Background, Background, Background] \<and>
   Background \<noteq> WithTimeout Background 30"
proof -
  have "Ports (Spec test_svc) = [\<lparr>PortName = ''http'', Port = 9200\<rparr>]"
    by (simp add: test_svc_def)
  then have "snd (Resolve ''ns-a'' ''cluster-a'' happy_path) =
          issued [endpoint_fetch ''ns-a'' ''cluster-a'', credential_fetch ''ns-a'' ''cluster-a'',
                  trust_fetch ''ns-a'' ''cluster-a''] happy_path"
    unfolding happy_path_cluster
    by (simp add: cluster_with_success test_svc_address)
  moreover have "requests happy_path = []"
    by (simp add: happy_path_def directory_of_def)
  ultimately show ?thesis
    by (simp add: issued_def endpoint_fetch_def credential_fetch_def trust_fetch_def)
qed

text \<open>
  C7, amended. The resolver takes no context from its caller: each of the requests it
  issues, between one and three, carries \<open>context.Background()\<close>, which has no
  deadline and is never cancelled.
\<close>

theorem Resolve_fetches_with_Background:
  "\<exists>rs. requests (snd (Resolve ns name d)) = requests d @ rs \<and> rs \<noteq> [] \<and> length rs \<le> 3 \<and>
        (\<forall>r \<in> set rs. req_ctx r = Background)"
  using Resolve_issued [of ns name d]
  by (auto simp: issued_def endpoint_fetch_def credential_fetch_def trust_fetch_def)

theorem Resolve_fetches_with_Background_witness:
  "requests (snd (Resolve ''ns-a'' ''cluster-a'' missing_user_secret)) \<noteq> [] \<and>
   list_all (\<lambda>r. req_ctx r = Background)
     (requests (snd (Resolve ''ns-a'' ''cluster-a'' missing_user_secret)))"
proof -
  have "requests missing_user_secret = []"
    by (simp add: missing_user_secret_def directory_of_def)
  with Resolve_fetches_with_Background [of "''ns-a''" "''cluster-a''" missing_user_secret]
  show ?thesis by (auto simp: list_all_iff)
qed

text \<open>
  C8. Two resolutions in a row, with the same namespace and cluster name, against a
  directory whose resources do not change return the same pair of configuration and
  error: the first one leaves the resources as they were, and the second one reads
  them again.
\<close>

theorem Resolve_twice:
  "fst (Resolve ns name (snd (Resolve ns name d))) = fst (Resolve ns name d)"
  using Resolve_reads_only [of ns name d]
  by (intro Resolve_result_cong) simp_all

theorem Resolve_twice_witness:
  "fst (Resolve ''ns-a'' ''cluster-a'' (snd (Resolve ''ns-a'' ''cluster-a'' happy_path))) =
     (\<lparr>Addresses = [''http://127.0.0.1:9200''], Username = ''elastic'',
       Password = ''secretpw'', CACert = None\<rparr>, None)"
proof -
  have "Ports (Spec test_svc) = [\<lparr>PortName = ''http'', Port = 9200\<rparr>]"
    by (simp add: test_svc_def)
  then have "fst (Resolve ''ns-a'' ''cluster-a'' happy_path) =
     (\<lparr>Addresses = [''http://127.0.0.1:9200''], Username = ''elastic'',
       Password = ''secretpw'', CACert = None\<rparr>, None)"
    unfolding happy_path_cluster
    by (simp add: cluster_with_success test_svc_address compose_address_def fmt_d_9200)
  with Resolve_twice [of "''ns-a''" "''cluster-a''" happy_path] show ?thesis by simp
qed

text \<open>
  C9, as stated, does not hold for every endpoint whose single port has an empty name:
  the resolution also needs the two secrets. With the unnamed port, the cluster IP and
  the credential secret in place but no trust secret, it fails with the directory's
  \<open>NotFound\<close> error for the trust secret.
\<close>

theorem Resolve_unnamed_port_no_trust:
  "Ports (Spec unnamed_port_svc) = [\<lparr>PortName = [], Port = 9200\<rparr>] \<and>
   fst (Resolve ''ns-a'' ''cluster-a'' (cluster_without_certs unnamed_port_svc)) =
     (Config_zero, Some (NotFound SecretKind certsSecret_key))"
proof -
  have port: "Ports (Spec unnamed_port_svc) = [\<lparr>PortName = [], Port = 9200\<rparr>]"
    and addr: "select_address unnamed_port_svc \<noteq> []"
    by (simp_all add: unnamed_port_svc_def select_address_def)
  have key: "trust_key ''ns-a'' ''cluster-a'' = certsSecret_key"
    by (simp add: trust_key_def certsSecret_key_def)
  from port have "length (Ports (Spec unnamed_port_svc)) = 1"
    by simp
  from Resolve_trust_absent [OF cluster_without_certs_endpoint this addr
         cluster_without_certs_credential test_userSecret_elastic cluster_without_certs_trust]
  show ?thesis by (simp add: port key)
qed

text \<open>
  C9, amended. Whether a resolution succeeds does not depend on the port's name: it
  succeeds exactly when the endpoint exists with one port and a non-empty selected
  address, the credential secret exists with an entry \<open>elastic\<close>, and the trust secret
  exists. On every successful resolution the one address returned is the port's name,
  as it is, followed by \<open>://\<close>, the selected address, a colon and the port in decimal;
  in particular, with an empty port name the address has the shape \<open>://host:port\<close>.
\<close>

theorem Resolve_scheme_verbatim:
  "(snd (fst (Resolve ns name d)) = None \<longleftrightarrow>
      (\<exists>svc cred pw trust.
         services d (endpoint_key ns name) = Some svc \<and> length (Ports (Spec svc)) = 1 \<and>
         select_address svc \<noteq> [] \<and> secrets d (credential_key ns name) = Some cred \<and>
         Data cred ''elastic'' = Some pw \<and> secrets d (trust_key ns name) = Some trust)) \<and>
   (\<forall>svc p. services d (endpoint_key ns name) = Some svc \<and> Ports (Spec svc) = [p] \<and>
      snd (fst (Resolve ns name d)) = None \<longrightarrow>
      Addresses (fst (fst (Resolve ns name d))) =
        [PortName p @ ''://'' @ select_address svc @ '':'' @ fmt_d (sint (Port p))]) \<and>
   (\<forall>svc p. services d (endpoint_key ns name) = Some svc \<and> Ports (Spec svc) = [p] \<and>
      PortName p = [] \<and> snd (fst (Resolve ns name d)) = None \<longrightarrow>
      Addresses (fst (fst (Resolve ns name d))) =
        [''://'' @ select_address svc @ '':'' @ fmt_d (sint (Port p))])"
proof -
  have succeeds: "snd (fst (Resolve ns name d)) = None \<longleftrightarrow>
      (\<exists>svc cred pw trust.
         services d (endpoint_key ns name) = Some svc \<and> length (Ports (Spec svc)) = 1 \<and>
         select_address svc \<noteq> [] \<and> secrets d (credential_key ns name) = Some cred \<and>
         Data cred ''elastic'' = Some pw \<and> secrets d (trust_key ns name) = Some trust)"
  proof (cases rule: Resolve_cases [of d ns name])
    case endpoint_absent
    with Resolve_endpoint_absent [of d ns name] show ?thesis by simp
  next
    case (port_count svc)
    with Resolve_port_count [of d ns name svc] show ?thesis by simp
  next
    case (no_address svc p)
    with Resolve_no_address [of d ns name svc] show ?thesis by simp
  next
    case (credential_absent svc p)
    with Resolve_credential_absent [of d ns name svc] show ?thesis by simp
  next
    case (no_entry svc p cred)
    with Resolve_no_entry [of d ns name svc cred] show ?thesis by simp
  next
    case (trust_absent svc p cred pw)
    with Resolve_trust_absent [of d ns name svc cred pw] show ?thesis by simp
  next
    case (success svc p cred pw trust)
    with Resolve_success [of d ns name svc p cred pw trust] show ?thesis by simp
  qed
  have address: "Addresses (fst (fst (Resolve ns name d))) =
        [PortName p @ ''://'' @ select_address svc @ '':'' @ fmt_d (sint (Port p))]"
    if "services d (endpoint_key ns name) = Some svc" "Ports (Spec svc) = [p]"
      "snd (fst (Resolve ns name d)) = None" for svc p
    using Resolve_selected [OF that(1,2)] that(3) by (simp add: compose_address_def)
  have named: "\<forall>svc p. services d (endpoint_key ns name) = Some svc \<and> Ports (Spec svc) = [p] \<and>
      snd (fst (Resolve ns name d)) = None \<longrightarrow>
      Addresses (fst (fst (Resolve ns name d))) =
        [PortName p @ ''://'' @ select_address svc @ '':'' @ fmt_d (sint (Port p))]"
    using address by blast
  have unnamed: "\<forall>svc p. services d (endpoint_key ns name) = Some svc \<and> Ports (Spec svc) = [p] \<and>
      PortName p = [] \<and> snd (fst (Resolve ns name d)) = None \<longrightarrow>
      Addresses (fst (fst (Resolve ns name d))) =
        [''://'' @ select_address svc @ '':'' @ fmt_d (sint (Port p))]"
  proof (intro allI impI)
    fix svc p
    assume a: "services d (endpoint_key ns name) = Some svc \<and> Ports (Spec svc) = [p] \<and>
      PortName p = [] \<and> snd (fst (Resolve ns name d)) = None"
    then have "Addresses (fst (fst (Resolve ns name d))) =
        [PortName p @ ''://'' @ select_address svc @ '':'' @ fmt_d (sint (Port p))]"
      using address [of svc p] by blast
    with a show "Addresses (fst (fst (Resolve ns name d))) =
        [''://'' @ select_address svc @ '':'' @ fmt_d (sint (Port p))]"
      by simp
  qed
  from succeeds named unnamed show ?thesis by (intro conjI)
qed

theorem Resolve_scheme_verbatim_witness:
  "snd (fst (Resolve ''ns-a'' ''cluster-a'' (cluster_with transport_port_svc))) = None \<and>
   Addresses (fst (fst (Resolve ''ns-a'' ''cluster-a'' (cluster_with transport_port_svc)))) =
     [''transport://127.0.0.1:9300''] \<and>
   snd (fst (Resolve ''ns-a'' ''cluster-a'' (cluster_with unnamed_port_svc))) = None \<and>
   Addresses (fst (fst (Resolve ''ns-a'' ''cluster-a'' (cluster_with unnamed_port_svc)))) =
     [''://127.0.0.1:9200'']"
proof -
  let ?t = "\<lparr>PortName = ''transport'', Port = 9300\<rparr>"
  let ?u = "\<lparr>PortName = [], Port = 9200\<rparr>"
  have t: "Ports (Spec transport_port_svc) = [?t]" "length (Ports (Spec transport_port_svc)) = 1"
    "select_address transport_port_svc = ''127.0.0.1''"
    by (simp_all add: transport_port_svc_def select_address_def)
  have u: "Ports (Spec unnamed_port_svc) = [?u]" "length (Ports (Spec unnamed_port_svc)) = 1"
    "select_address unnamed_port_svc = ''127.0.0.1''"
    by (simp_all add: unnamed_port_svc_def select_address_def)
  have present: "\<exists>s cred pw trust.
         services (cluster_with svc) (endpoint_key ''ns-a'' ''cluster-a'') = Some s \<and>
         length (Ports (Spec s)) = 1 \<and> select_address s \<noteq> [] \<and>
         secrets (cluster_with svc) (credential_key ''ns-a'' ''cluster-a'') = Some cred \<and>
         Data cred ''elastic'' = Some pw \<and>
         secrets (cluster_with svc) (trust_key ''ns-a'' ''cluster-a'') = Some trust"
    if "length (Ports (Spec svc)) = 1" "select_address svc \<noteq> []" for svc
    using that cluster_with_endpoint [of svc] cluster_with_credential [of svc]
      cluster_with_trust [of svc] test_userSecret_elastic
    by blast
  note T = Resolve_scheme_verbatim [of "''ns-a''" "''cluster-a''" "cluster_with transport_port_svc"]
  note U = Resolve_scheme_verbatim [of "''ns-a''" "''cluster-a''" "cluster_with unnamed_port_svc"]
  have t_ok: "snd (fst (Resolve ''ns-a'' ''cluster-a'' (cluster_with transport_port_svc))) = None"
    using T [THEN conjunct1] present [of transport_port_svc] t by simp
  have u_ok: "snd (fst (Resolve ''ns-a'' ''cluster-a'' (cluster_with unnamed_port_svc))) = None"
    using U [THEN conjunct1] present [of unnamed_port_svc] u by simp
  have t_addr: "Addresses (fst (fst (Resolve ''ns-a'' ''cluster-a'' (cluster_with transport_port_svc)))) =
     [''transport://127.0.0.1:9300'']"
    using T [THEN conjunct2, THEN conjunct1, rule_format, of transport_port_svc ?t]
      cluster_with_endpoint [of transport_port_svc] t t_ok
    by (simp add: fmt_d_9300)
  have u_addr: "Addresses (fst (fst (Resolve ''ns-a'' ''cluster-a'' (cluster_with unnamed_port_svc)))) =
     [''://127.0.0.1:9200'']"
    using U [THEN conjunct2, THEN conjunct2, rule_format, of unnamed_port_svc ?u]
      cluster_with_endpoint [of unnamed_port_svc] u u_ok
    by (simp add: fmt_d_9200)
  from t_ok t_addr u_ok u_addr show ?thesis by simp
qed

text \<open>
  C10, as stated, does not hold for every endpoint resource: the port count is checked
  before the address. A service with two ports, one load-balancer ingress with an empty
  \<open>IP\<close> and a cluster IP fails with \<open>InvalidShape\<close>, not with \<open>MissingAddress\<close>.
\<close>

theorem Resolve_empty_ingress_IP_two_ports:
  "fst (Resolve ''ns-a'' ''cluster-a'' (cluster_with two_port_svc)) =
     (Config_zero, Some (InvalidShape 2)) \<and>
   InvalidShape 2 \<noteq> MissingAddress \<and>
   map IP (Ingress (LoadBalancer (Status two_port_svc))) = [[]] \<and>
   ClusterIP (Spec two_port_svc) = ''10.0.0.1''"
proof -
  have "length (Ports (Spec two_port_svc)) = 2"
    by (simp add: two_port_svc_def)
  then have "fst (Resolve ''ns-a'' ''cluster-a'' (cluster_with two_port_svc)) =
     (Config_zero, Some (InvalidShape 2))"
    using Resolve_port_count [OF cluster_with_endpoint, of two_port_svc] by simp
  then show ?thesis
    by (simp add: error_distinct two_port_svc_def)
qed

text \<open>
  C10, amended. For an endpoint resource with exactly one port that reports exactly one
  load-balancer ingress whose \<open>IP\<close> is the empty string, the resolution fails with
  the error \<open>MissingAddress\<close> after the one request for the endpoint, whatever the
  cluster IP is: the cluster IP is not a fallback once exactly one ingress is reported.
\<close>

theorem Resolve_empty_ingress_IP:
  assumes "services d (endpoint_key ns name) = Some svc"
    and "length (Ports (Spec svc)) = 1"
    and "Ingress (LoadBalancer (Status svc)) = [g]"
    and "IP g = []"
  shows "Resolve ns name d = ((Config_zero, Some MissingAddress), issued [endpoint_fetch ns name] d)"
proof -
  from assms(3,4) have "select_address svc = []"
    by (simp add: select_address_def)
  with assms(1,2) show ?thesis
    by (rule Resolve_no_address)
qed

theorem Resolve_empty_ingress_IP_witness:
  "ClusterIP (Spec hostname_ingress_svc) = ''10.0.0.1'' \<and>
   Resolve ''ns-a'' ''cluster-a'' (cluster_with hostname_ingress_svc) =
     ((Config_zero, Some MissingAddress),
      issued [endpoint_fetch ''ns-a'' ''cluster-a''] (cluster_with hostname_ingress_svc))"
proof -
  have port: "length (Ports (Spec hostname_ingress_svc)) = 1"
    and ingress: "Ingress (LoadBalancer (Status hostname_ingress_svc)) =
                    [\<lparr>IP = [], Hostname = ''es.example.com''\<rparr>]"
    and ip: "IP \<lparr>IP = [], Hostname = ''es.example.com''\<rparr> = []"
    and cluster: "ClusterIP (Spec hostname_ingress_svc) = ''10.0.0.1''"
    by (simp_all add: hostname_ingress_svc_def)
  from Resolve_empty_ingress_IP [OF cluster_with_endpoint port ingress ip] cluster show ?thesis by simp
qed

end
